theory Spec2Isabelle
  imports Complex_Main
begin

section \<open>JavaScript values used by the advancement code\<close>

text \<open>
  An ordinary JavaScript object is modelled by its own properties in creation order: an
  association list whose keys are property-key strings. A well-formed object has distinct
  keys. Reading a property is \<open>map_of\<close>; a missing property reads as \<open>undefined\<close>, which
  is \<open>None\<close>.
\<close>

type_synonym 'v js_object = "(string \<times> 'v) list"

definition js_get :: "'v js_object \<Rightarrow> string \<Rightarrow> 'v option" where
  "js_get obj k = map_of obj k"

definition is_digit :: "char \<Rightarrow> bool" where
  "is_digit c = (48 \<le> (of_char c :: nat) \<and> (of_char c :: nat) \<le> 57)"

definition digit_val :: "char \<Rightarrow> nat" where
  "digit_val c = of_char c - 48"

definition dec_value :: "string \<Rightarrow> nat" where
  "dec_value s = foldl (\<lambda>n c. 10 * n + digit_val c) 0 s"

text \<open>
  A property key is an array index when it is the canonical decimal numeral of an integer
  below \<open>2^32 - 1\<close>: digits only, no leading zero unless it is the single digit zero.
\<close>

definition array_index :: "string \<Rightarrow> nat option" where
  "array_index s =
     (if s \<noteq> [] \<and> list_all is_digit s \<and> (hd s \<noteq> CHR ''0'' \<or> length s = 1)
         \<and> dec_value s < 4294967295
      then Some (dec_value s) else None)"

definition is_array_index :: "string \<Rightarrow> bool" where
  "is_array_index s = (array_index s \<noteq> None)"

definition index_value :: "string \<Rightarrow> nat" where
  "index_value s = (case array_index s of Some n \<Rightarrow> n | None \<Rightarrow> 0)"

text \<open>
  \<open>Object.keys\<close> on an ordinary object: the array-index keys in ascending numeric order,
  then every other string key in creation order.
\<close>

definition object_keys :: "'v js_object \<Rightarrow> string list" where
  "object_keys obj =
     (let ks = map fst obj
      in sort_key index_value (filter is_array_index ks)
         @ filter (\<lambda>k. \<not> is_array_index k) ks)"

text \<open>The decimal string of a non-negative integer, as \<open>String(n)\<close> gives it.\<close>

definition digit_char :: "nat \<Rightarrow> char" where
  "digit_char d = ''0123456789'' ! d"

function string_of_nat :: "nat \<Rightarrow> string" where
  "string_of_nat n =
     (if n < 10 then [digit_char n] else string_of_nat (n div 10) @ [digit_char (n mod 10)])"
  by pat_completeness auto
termination
  by (relation "measure id") auto

declare string_of_nat.simps [simp del]

section \<open>ItemChoiceAdvancement\<close>

text \<open>
  \<open>configuration.choices\<close> maps a level to the number of choices offered there;
  \<open>value.added\<close>, when present, maps a level to the items chosen there (choice key to
  item UUID). \<open>value.added\<close> is absent until something has been applied.
\<close>

record restriction =
  restriction_type :: "string option"
  restriction_subtype :: "string option"
  restriction_level :: "string option"

record item_choice_configuration =
  choices :: "nat js_object"
  configuration_type :: "string option"
  configuration_restriction :: restriction

record item_choice_value =
  added :: "(string \<times> string) list js_object option"

record item_choice_advancement =
  configuration :: item_choice_configuration
  advancement_value :: item_choice_value

text \<open>\<^verbatim>\<open>get levels() { return Array.from(Object.keys(this.configuration.choices)); }\<close>\<close>

definition levels :: "item_choice_advancement \<Rightarrow> string list" where
  "levels adv = object_keys (choices (configuration adv))"

text \<open>
  \<^verbatim>\<open>configuredForLevel(level) { return this.value.added?.[level] !== undefined; }\<close>
  The numeric level is converted to its property key.
\<close>

definition configuredForLevel :: "item_choice_advancement \<Rightarrow> nat \<Rightarrow> bool" where
  "configuredForLevel adv level =
     (case added (advancement_value adv) of
        None \<Rightarrow> False
      | Some a \<Rightarrow> js_get a (string_of_nat level) \<noteq> None)"

section \<open>Errors and host services\<close>

text \<open>
  A thrown JavaScript exception is a value: \<open>TypeError\<close> is what reading a property of
  \<open>undefined\<close> throws, \<open>JsError msg\<close> is \<^verbatim>\<open>throw new Error(msg)\<close>.
\<close>

datatype js_error = TypeError | JsError string

text \<open>A call returns when it does not throw.\<close>

definition returns :: "js_error + 'a \<Rightarrow> bool" where
  "returns r = (case r of Inl e \<Rightarrow> False | Inr v \<Rightarrow> True)"

text \<open>
  The host application's localisation service and configuration tables are parameters of
  the model. \<open>localize\<close> is \<^verbatim>\<open>game.i18n.localize\<close> (its argument may be
  \<open>undefined\<close>), \<open>format\<close> is \<^verbatim>\<open>game.i18n.format(key, data)\<close> with the data object
  as its list of properties. \<open>typeLabels\<close> is \<^verbatim>\<open>CONFIG.Item.typeLabels\<close>,
  \<open>featureTypes\<close> is \<^verbatim>\<open>CONFIG.SW5E.featureTypes\<close> and \<open>powerLevels\<close> is
  \<^verbatim>\<open>CONFIG.SW5E.powerLevels\<close>.
\<close>

record feature_type_config =
  label :: "string option"
  subtypes :: "string js_object option"

record host =
  localize :: "string option \<Rightarrow> string option"
  format :: "string \<Rightarrow> (string \<times> string option) list \<Rightarrow> string"
  typeLabels :: "string js_object"
  featureTypes :: "feature_type_config js_object"
  powerLevels :: "string js_object"

text \<open>
  An item document: its \<open>type\<close>, and the parts of \<open>system\<close> the validation reads.
  \<open>system.type\<close> exists on feature items only; \<open>system.level\<close> on powers only.
\<close>

record item_feature_type =
  type_value :: "string option"
  type_subtype :: "string option"

record item_system =
  system_type :: "item_feature_type option"
  system_level :: "int option"

record item =
  item_type :: string
  system :: item_system

text \<open>JavaScript truthiness of a value that is a string or \<open>undefined\<close>.\<close>

definition truthy :: "string option \<Rightarrow> bool" where
  "truthy s = (case s of None \<Rightarrow> False | Some v \<Rightarrow> v \<noteq> [])"

text \<open>
  \<open>parseInt(string)\<close> without a radix, on ASCII text: leading white space is skipped, a
  sign is read, a \<open>0x\<close> or \<open>0X\<close> prefix selects radix 16, and the longest prefix of digits
  of the radix is the value. No digit at all gives \<open>NaN\<close>, which is \<open>None\<close>. The argument
  \<open>undefined\<close> is first converted to the string \<open>undefined\<close>.
\<close>

definition is_white_space :: "char \<Rightarrow> bool" where
  "is_white_space c = ((of_char c :: nat) \<in> {9, 10, 11, 12, 13, 32})"

definition radix_digit :: "char \<Rightarrow> nat option" where
  "radix_digit c =
     (let n = (of_char c :: nat)
      in if 48 \<le> n \<and> n \<le> 57 then Some (n - 48)
         else if 97 \<le> n \<and> n \<le> 122 then Some (n - 87)
         else if 65 \<le> n \<and> n \<le> 90 then Some (n - 55)
         else None)"

definition is_radix_digit :: "nat \<Rightarrow> char \<Rightarrow> bool" where
  "is_radix_digit r c = (case radix_digit c of None \<Rightarrow> False | Some d \<Rightarrow> d < r)"

definition radix_value :: "nat \<Rightarrow> string \<Rightarrow> nat" where
  "radix_value r s =
     foldl (\<lambda>n c. r * n + (case radix_digit c of None \<Rightarrow> 0 | Some d \<Rightarrow> d)) 0 s"

definition parseInt :: "string option \<Rightarrow> int option" where
  "parseInt input =
     (let inputString = (case input of None \<Rightarrow> ''undefined'' | Some s \<Rightarrow> s);
          s0 = dropWhile is_white_space inputString;
          negative = (s0 \<noteq> [] \<and> hd s0 = CHR ''-'');
          s1 = (if s0 \<noteq> [] \<and> (hd s0 = CHR ''+'' \<or> hd s0 = CHR ''-'') then tl s0 else s0);
          hex = (take 2 s1 = ''0x'' \<or> take 2 s1 = ''0X'');
          r = (if hex then 16 else 10);
          s2 = (if hex then drop 2 s1 else s1);
          z = takeWhile (is_radix_digit r) s2
      in if z = [] then None
         else Some (if negative then - int (radix_value r z) else int (radix_value r z)))"

definition string_of_int :: "int \<Rightarrow> string" where
  "string_of_int i = (if i < 0 then CHR ''-'' # string_of_nat (nat (- i)) else string_of_nat (nat i))"

section \<open>ItemChoiceAdvancement._validateItemType\<close>

text \<open>
  The second argument \<^verbatim>\<open>{ type, restriction, strict=true }={}\<close>: a property that is not
  given is \<open>None\<close>.
\<close>

record validate_config =
  config_type :: "string option"
  config_restriction :: "restriction option"
  config_strict :: "bool option"

text \<open>\<^verbatim>\<open>strict=true\<close>, \<^verbatim>\<open>type ??= this.configuration.type\<close> and
  \<^verbatim>\<open>restriction ??= this.configuration.restriction\<close>.\<close>

definition strict_of :: "validate_config \<Rightarrow> bool" where
  "strict_of cfg = (case config_strict cfg of None \<Rightarrow> True | Some b \<Rightarrow> b)"

definition type_of :: "item_choice_advancement \<Rightarrow> validate_config \<Rightarrow> string option" where
  "type_of adv cfg =
     (case config_type cfg of None \<Rightarrow> configuration_type (configuration adv) | Some t \<Rightarrow> Some t)"

definition restriction_of :: "item_choice_advancement \<Rightarrow> validate_config \<Rightarrow> restriction" where
  "restriction_of adv cfg =
     (case config_restriction cfg of
        None \<Rightarrow> configuration_restriction (configuration adv)
      | Some r \<Rightarrow> r)"

text \<open>
  A plain object used as a property key, as in \<^verbatim>\<open>CONFIG.Item.typeLabels[restriction]\<close>,
  is converted to the string \<open>[object Object]\<close>, whatever its properties.
\<close>

definition object_property_key :: "restriction \<Rightarrow> string" where
  "object_property_key r = ''[object Object]''"

text \<open>A property key from a value that is a string or \<open>undefined\<close>.\<close>

definition property_key :: "string option \<Rightarrow> string" where
  "property_key k = (case k of None \<Rightarrow> ''undefined'' | Some s \<Rightarrow> s)"

text \<open>
  \<open>_validateItemType\<close>, in the order of the source. \<open>super_validateItemType\<close> is the
  inherited \<open>ItemGrantAdvancement._validateItemType(item, { strict })\<close>: its result is
  discarded, an exception it throws propagates. The result is \<open>Inr\<close> of the returned
  boolean or \<open>Inl\<close> of the exception thrown.
\<close>

definition validateItemType ::
  "host \<Rightarrow> (item \<Rightarrow> bool \<Rightarrow> js_error + bool) \<Rightarrow> item_choice_advancement
     \<Rightarrow> item \<Rightarrow> validate_config \<Rightarrow> js_error + bool" where
  "validateItemType h super_validateItemType adv itm cfg =
     (let strict = strict_of cfg
      in case super_validateItemType itm strict of
           Inl e \<Rightarrow> Inl e
         | Inr _ \<Rightarrow>
     (let type = type_of adv cfg;
          restriction = restriction_of adv cfg
      in if truthy type \<and> type \<noteq> Some (item_type itm) then
           (let typeLabel = localize h (js_get (typeLabels h) (object_property_key restriction))
            in if strict
               then Inl (JsError (format h ''SW5E.AdvancementItemChoiceTypeWarning''
                                    [(''type'', typeLabel)]))
               else Inr False)
         else
     (case
        (if type = Some ''feat'' \<and> truthy (restriction_type restriction) then
           (case js_get (featureTypes h) (property_key (restriction_type restriction)) of
              None \<Rightarrow> Inl TypeError
            | Some typeConfig \<Rightarrow>
                (let subtype =
                       (case subtypes typeConfig of
                          None \<Rightarrow> None
                        | Some st \<Rightarrow> js_get st (property_key (restriction_subtype restriction)))
                 in case system_type (system itm) of
                      None \<Rightarrow> Inl TypeError
                    | Some item_system_type \<Rightarrow>
                        Inr (if restriction_type restriction \<noteq> type_value item_system_type
                             then label typeConfig
                             else if truthy subtype
                                     \<and> restriction_subtype restriction
                                         \<noteq> type_subtype item_system_type
                             then subtype
                             else None)))
         else Inr None)
      of
        Inl e \<Rightarrow> Inl e
      | Inr errorLabel \<Rightarrow>
          if truthy errorLabel then
            (if strict
             then Inl (JsError (format h ''SW5E.AdvancementItemChoiceTypeWarning''
                                  [(''type'', errorLabel)]))
             else Inr False)
          else
            (let l = parseInt (restriction_level restriction)
             in if type = Some ''power'' \<and> l \<noteq> None \<and> system_level (system itm) \<noteq> l then
                  (let level = js_get (powerLevels h) (string_of_int (the l))
                   in if strict
                      then Inl (JsError
                                  (format h ''SW5E.AdvancementItemChoicePowerLevelSpecificWarning''
                                     [(''level'', level)]))
                      else Inr False)
                else Inr True))))"

section \<open>ItemGrantConfig._validateDroppedItem\<close>

text \<open>
  \<open>String.prototype.capitalize\<close> of the host: the first character in upper case, the rest
  unchanged (ASCII letters).
\<close>

definition toUpperCase_char :: "char \<Rightarrow> char" where
  "toUpperCase_char c =
     (case map_of (zip ''abcdefghijklmnopqrstuvwxyz'' ''ABCDEFGHIJKLMNOPQRSTUVWXYZ'') c of
        None \<Rightarrow> c
      | Some u \<Rightarrow> u)"

definition capitalize :: "string \<Rightarrow> string" where
  "capitalize s = (case s of [] \<Rightarrow> [] | c # cs \<Rightarrow> toUpperCase_char c # cs)"

text \<open>
  \<open>VALID_TYPES\<close> is the static set of item types of the advancement's class.
\<close>

definition validateDroppedItem :: "host \<Rightarrow> string set \<Rightarrow> item \<Rightarrow> js_error + bool" where
  "validateDroppedItem h VALID_TYPES itm =
     (if item_type itm \<in> VALID_TYPES then Inr True
      else (let type = localize h (Some (''ITEM.Type'' @ capitalize (item_type itm)))
            in Inl (JsError (format h ''SW5E.AdvancementItemTypeInvalidWarning''
                               [(''type'', type)]))))"

section \<open>AdvancementFlow\<close>

text \<open>
  A form payload and the data retained from a reverse step are objects of string
  properties. The flow holds the item's advancements by id (\<open>item.advancement?.byId\<close>,
  absent on an item without advancements), the id of its own advancement, its level, and
  \<open>retainedData\<close>, which is \<open>null\<close> unless the manager stored data from a reverse step.
\<close>

type_synonym form_data = "(string \<times> string) list"

type_synonym retained_data = "(string \<times> string) list"

record 'a advancement_flow =
  item_advancement_byId :: "'a js_object option"
  advancementId :: string
  flow_level :: nat
  retainedData :: "retained_data option"

text \<open>\<^verbatim>\<open>get advancement() { return this.item.advancement?.byId[this._advancementId] ?? null; }\<close>\<close>

definition advancement :: "'a advancement_flow \<Rightarrow> 'a option" where
  "advancement flow =
     (case item_advancement_byId flow of
        None \<Rightarrow> None
      | Some byId \<Rightarrow> js_get byId (advancementId flow))"

text \<open>
  What a flow does to the outside is the list of calls it makes on its advancement. The
  Advancement contract has \<open>apply(level, data)\<close>, \<open>restore(level, data)\<close> and
  \<open>reverse(level)\<close>.
\<close>

datatype 'a advancement_call =
    Call_apply 'a nat form_data
  | Call_restore 'a nat retained_data
  | Call_reverse 'a nat

text \<open>
  \<^verbatim>\<open>async _updateObject(event, formData) { await this.advancement.apply(this.level, formData); }\<close>
  Without an advancement of that id the property read throws.
\<close>

definition updateObject :: "'a advancement_flow \<Rightarrow> form_data \<Rightarrow> js_error + 'a advancement_call list" where
  "updateObject flow formData =
     (case advancement flow of
        None \<Rightarrow> Inl TypeError
      | Some a \<Rightarrow> Inr [Call_apply a (flow_level flow) formData])"

section \<open>ActorSheet5eCharacter\<close>

text \<open>
  The character as the sheet reads it: its total level (\<open>system.details.level\<close>), its
  class items and its archetype items. A class item has an id, an identifier, its number
  of levels, its name and, when one is assigned, the name of its archetype.
\<close>

record class_item =
  class_id :: string
  class_identifier :: string
  class_levels :: int
  class_name :: string
  class_archetype :: "string option"

record archetype_item =
  archetype_identifier :: string

record actor =
  details_level :: int
  itemTypes_class :: "class_item list"
  itemTypes_archetype :: "archetype_item list"

text \<open>
  Modelled from the spec: one step of an Advancement Manager, whose module is not among the
  sources: forward or reverse, for one advancement at one level.
\<close>

datatype step_type = Forward | Reverse

record step =
  step_kind :: step_type
  step_advancement :: string
  step_level :: nat

text \<open>
  What the sheet uses of the outside world: the setting \<open>disableAdvancements\<close>,
  \<open>CONFIG.SW5E.maxLevel\<close>, the host's \<open>format\<close>, and the steps of the manager that
  \<open>AdvancementManager.forLevelChange(actor, classId, delta)\<close> builds.
\<close>

record sheet_env =
  disableAdvancements :: bool
  maxLevel :: int
  i18n_format :: "string \<Rightarrow> (string \<times> string option) list \<Rightarrow> string"
  forLevelChange :: "actor \<Rightarrow> string \<Rightarrow> int \<Rightarrow> step list"

text \<open>
  The promise of \<open>AdvancementConfirmationDialog.forLevelDown\<close> either resolves with
  \<open>shouldRemoveAdvancements\<close>, the answer of a user who goes on with the level decrease,
  or rejects, when the user declines; the source catches the rejection and returns.
\<close>

datatype dialog_outcome = Resolved bool | Rejected

text \<open>What the sheet does to the outside, in order.\<close>

datatype sheet_effect =
    Confirm_level_down string
  | Render_manager string int "step list"
  | Update_levels string int
  | Notify_error string

datatype completion =
    Returns_undefined
  | Returns_manager
  | Returns_updated_item
  | Throws js_error

text \<open>
  The change event of the level selector: \<open>Number(event.target.value)\<close>, where \<open>None\<close> is
  \<open>NaN\<close>, and the item id of the enclosing \<open>.item\<close> element, if any.
\<close>

record level_change_event =
  target_value :: "int option"
  closest_item_id :: "string option"

text \<open>\<open>this.actor.items.get(classId)\<close>, among the class items.\<close>

definition items_get :: "actor \<Rightarrow> string \<Rightarrow> class_item option" where
  "items_get a classId = find (\<lambda>c. class_id c = classId) (itemTypes_class a)"

text \<open>
  The last statement of \<open>_onLevelChange\<close>:
  \<^verbatim>\<open>return classItem.update({"system.levels": classItem.system.levels + delta});\<close>
  after the effects so far. Without a class item of that id the property read throws.
\<close>

definition update_levels ::
  "sheet_effect list \<Rightarrow> string \<Rightarrow> class_item option \<Rightarrow> int \<Rightarrow> sheet_effect list \<times> completion" where
  "update_levels effects classId classItem delta =
     (case classItem of
        None \<Rightarrow> (effects, Throws TypeError)
      | Some c \<Rightarrow>
          (effects @ [Update_levels classId (class_levels c + delta)], Returns_updated_item))"

text \<open>
  \<open>_onLevelChange\<close>. The answer of the confirmation dialog is an input; it is consulted
  only where the source awaits the dialog.
\<close>

definition onLevelChange ::
  "sheet_env \<Rightarrow> actor \<Rightarrow> dialog_outcome \<Rightarrow> level_change_event
     \<Rightarrow> sheet_effect list \<times> completion" where
  "onLevelChange env a answer event =
     (case target_value event of
        None \<Rightarrow> ([], Returns_undefined)
      | Some delta \<Rightarrow>
          if delta = 0 \<or> \<not> truthy (closest_item_id event) then ([], Returns_undefined)
          else
            (let classId = property_key (closest_item_id event);
                 classItem = items_get a classId
             in if \<not> disableAdvancements env then
                  (let manager_steps = forLevelChange env a classId delta
                   in if manager_steps \<noteq> [] then
                        (if delta > 0
                         then ([Render_manager classId delta manager_steps], Returns_manager)
                         else
                           (case answer of
                              Resolved shouldRemoveAdvancements \<Rightarrow>
                                if shouldRemoveAdvancements
                                then ([Confirm_level_down classId,
                                       Render_manager classId delta manager_steps],
                                      Returns_manager)
                                else update_levels [Confirm_level_down classId]
                                       classId classItem delta
                            | Rejected \<Rightarrow> ([Confirm_level_down classId], Returns_undefined)))
                      else update_levels [] classId classItem delta)
                else update_levels [] classId classItem delta))"

text \<open>
  The data of a dropped item, and the ways \<open>_onDropSingleItem\<close> ends: \<open>return false\<close>, or
  the inherited drop handling with the (possibly changed) item data, which creates the
  item.
\<close>

record item_data =
  data_type :: string
  data_levels :: int
  data_identifier :: string
  data_classIdentifier :: string

datatype drop_completion =
    Returns_false
  | Returns_super item_data

definition onDropSingleItem ::
  "sheet_env \<Rightarrow> actor \<Rightarrow> item_data \<Rightarrow> sheet_effect list \<times> drop_completion" where
  "onDropSingleItem env a itemData0 =
     (if data_type itemData0 = ''class'' then
        (let charLevel = details_level a;
             itemData = itemData0 \<lparr> data_levels :=
                          min (data_levels itemData0) (maxLevel env - charLevel) \<rparr>
         in if data_levels itemData \<le> 0 then
              ([Notify_error (i18n_format env ''SW5E.MaxCharacterLevelExceededWarn''
                                [(''max'', Some (string_of_int (maxLevel env)))])],
               Returns_false)
            else
              (case find (\<lambda>c. class_identifier c = data_identifier itemData)
                         (itemTypes_class a) of
                 Some cls \<Rightarrow>
                   (let priorLevel = class_levels cls
                    in if \<not> disableAdvancements env then
                         (let manager_steps =
                                forLevelChange env a (class_id cls) (data_levels itemData)
                          in if manager_steps \<noteq> [] then
                               ([Render_manager (class_id cls) (data_levels itemData)
                                   manager_steps],
                                Returns_false)
                             else
                               ([Update_levels (class_id cls)
                                   (priorLevel + data_levels itemData)],
                                Returns_false))
                       else
                         ([Update_levels (class_id cls) (priorLevel + data_levels itemData)],
                          Returns_false))
               | None \<Rightarrow> ([], Returns_super itemData)))
      else if data_type itemData0 = ''archetype'' then
        (case find (\<lambda>i. archetype_identifier i = data_identifier itemData0)
                   (itemTypes_archetype a) of
           Some other \<Rightarrow>
             ([Notify_error (i18n_format env ''SW5E.ArchetypeDuplicateError''
                               [(''identifier'', Some (archetype_identifier other))])],
              Returns_false)
         | None \<Rightarrow>
             (case find (\<lambda>i. class_identifier i = data_classIdentifier itemData0)
                        (itemTypes_class a) of
                None \<Rightarrow> ([], Returns_super itemData0)
              | Some cls \<Rightarrow>
                  (case class_archetype cls of
                     None \<Rightarrow> ([], Returns_super itemData0)
                   | Some archetype_name \<Rightarrow>
                       ([Notify_error (i18n_format env ''SW5E.ArchetypeAssignmentError''
                                         [(''class'', Some (class_name cls)),
                                          (''archetype'', Some archetype_name)])],
                        Returns_false))))
      else ([], Returns_super itemData0))"

section \<open>simplifyBonus\<close>

text \<open>
  A JavaScript number is \<open>NaN\<close>, an infinity or a finite value. A bonus is a number, a
  string, \<open>null\<close> or (when the property is missing) \<open>undefined\<close>.
\<close>

datatype js_number = NaN | PosInfinity | NegInfinity | Num real

datatype bonus_value =
    Bonus_null
  | Bonus_undefined
  | Bonus_number js_number
  | Bonus_string string

text \<open>Truthiness: \<open>null\<close>, \<open>undefined\<close>, \<open>0\<close>, \<open>NaN\<close> and the empty string are falsy.\<close>

definition js_truthy :: "bonus_value \<Rightarrow> bool" where
  "js_truthy v =
     (case v of
        Bonus_null \<Rightarrow> False
      | Bonus_undefined \<Rightarrow> False
      | Bonus_number n \<Rightarrow> n \<noteq> NaN \<and> n \<noteq> Num 0
      | Bonus_string s \<Rightarrow> s \<noteq> [])"

text \<open>
  The dice engine and the number parser belong to the host: \<open>string_to_number\<close> is
  \<open>Number\<close> on a string, \<open>new_Roll\<close> is \<^verbatim>\<open>new Roll(formula, data)\<close>, which may throw, and
  \<open>safeEval\<close> is \<open>Roll.safeEval\<close>, which returns a number or throws. A roll has a
  \<open>formula\<close> and knows whether it is deterministic.
\<close>

record roll =
  formula :: string
  isDeterministic :: bool

record 'd roll_host =
  string_to_number :: "string \<Rightarrow> js_number"
  new_Roll :: "bonus_value \<Rightarrow> 'd \<Rightarrow> js_error + roll"
  safeEval :: "string \<Rightarrow> js_error + js_number"

text \<open>\<open>Number(v)\<close>.\<close>

definition to_number :: "(string \<Rightarrow> js_number) \<Rightarrow> bonus_value \<Rightarrow> js_number" where
  "to_number parse v =
     (case v of
        Bonus_null \<Rightarrow> Num 0
      | Bonus_undefined \<Rightarrow> NaN
      | Bonus_number n \<Rightarrow> n
      | Bonus_string s \<Rightarrow> parse s)"

text \<open>
  The host's \<open>Number.isNumeric(n)\<close>: not \<open>null\<close>, not the empty string, and
  \<^verbatim>\<open>+n === +n\<close>, which fails for \<open>NaN\<close> only.
\<close>

definition isNumeric :: "(string \<Rightarrow> js_number) \<Rightarrow> bonus_value \<Rightarrow> bool" where
  "isNumeric parse n =
     (if n = Bonus_null \<or> n = Bonus_string [] then False else to_number parse n \<noteq> NaN)"

text \<open>
  \<open>simplifyBonus(bonus, data)\<close>. The body of the \<open>try\<close> is evaluated first; the \<open>catch\<close>
  turns every exception of it into the result \<open>0\<close>.
\<close>

definition simplifyBonus :: "'d roll_host \<Rightarrow> bonus_value \<Rightarrow> 'd \<Rightarrow> js_error + js_number" where
  "simplifyBonus host bonus data =
     (if \<not> js_truthy bonus then Inr (Num 0)
      else if isNumeric (string_to_number host) bonus
      then Inr (to_number (string_to_number host) bonus)
      else
        (case (case new_Roll host bonus data of
                 Inl error \<Rightarrow> Inl error
               | Inr roll \<Rightarrow>
                   if isDeterministic roll then safeEval host (formula roll) else Inr (Num 0))
         of
           Inl error \<Rightarrow> Inr (Num 0)
         | Inr result \<Rightarrow> Inr result))"

section \<open>Advancement Manager\<close>

text \<open>
  Modelled from the spec: the Advancement Manager, whose module
  (\<open>advancement-manager.mjs\<close>) is imported by the character sheet but is not among the
  sources. The spec gives it the real actor, a detached clone on which every step works,
  the ordered steps, a cursor with \<open>0 \<le> stepIndex \<le> steps.length\<close>, and the states
  \<open>Idle\<close>, \<open>Built\<close>, \<open>Stepping\<close>, \<open>Committing\<close> and \<open>Cancelled\<close>. The actor data is any
  type \<open>'a\<close>; the clone is \<open>None\<close> once it has been dropped.
\<close>

datatype manager_state = Idle | Built | Stepping | Committing | Cancelled

text \<open>Modelled from the spec: the fields of a manager.\<close>

record 'a manager =
  manager_actor :: 'a
  manager_clone :: "'a option"
  manager_steps :: "step list"
  stepIndex :: nat
  manager_state :: manager_state

text \<open>
  Modelled from the spec: construction for a level change clones the actor and starts at
  the first step.
\<close>

definition manager_build :: "'a \<Rightarrow> step list \<Rightarrow> 'a manager" where
  "manager_build a steps =
     \<lparr> manager_actor = a, manager_clone = Some a, manager_steps = steps, stepIndex = 0,
       manager_state = Built \<rparr>"

text \<open>
  Modelled from the spec: what the manager relies on. \<open>run_step\<close> is the apply or reverse
  of the advancement of a step, working on the clone, and may fail; \<open>undo_step\<close> re-enters
  a step already done; \<open>persist\<close> tells whether the host's batch update of the real actor
  succeeds.
\<close>

record 'a manager_host =
  run_step :: "step \<Rightarrow> 'a \<Rightarrow> js_error + 'a"
  undo_step :: "step \<Rightarrow> 'a \<Rightarrow> 'a"
  persist :: "'a \<Rightarrow> 'a \<Rightarrow> bool"

text \<open>
  Modelled from the spec: advance is permitted only once the current step has succeeded on
  the clone; advancing past the last step moves to \<open>Committing\<close>.
\<close>

definition manager_advance :: "'a manager_host \<Rightarrow> 'a manager \<Rightarrow> 'a manager" where
  "manager_advance host m =
     (case manager_clone m of
        None \<Rightarrow> m
      | Some c \<Rightarrow>
          if manager_state m \<noteq> Built \<and> manager_state m \<noteq> Stepping then m
          else if stepIndex m < length (manager_steps m) then
            (case run_step host (manager_steps m ! stepIndex m) c of
               Inl e \<Rightarrow> m
             | Inr c' \<Rightarrow>
                 m \<lparr> manager_clone := Some c',
                     stepIndex := Suc (stepIndex m),
                     manager_state :=
                       (if Suc (stepIndex m) = length (manager_steps m)
                        then Committing else Stepping) \<rparr>)
          else m \<lparr> manager_state := Committing \<rparr>)"

text \<open>Modelled from the spec: retreat re-enters the previous step, on the clone.\<close>

definition manager_retreat :: "'a manager_host \<Rightarrow> 'a manager \<Rightarrow> 'a manager" where
  "manager_retreat host m =
     (case manager_clone m of
        None \<Rightarrow> m
      | Some c \<Rightarrow>
          if (manager_state m = Stepping \<or> manager_state m = Committing) \<and> 0 < stepIndex m
          then m \<lparr> manager_clone :=
                      Some (undo_step host (manager_steps m ! (stepIndex m - 1)) c),
                    stepIndex := stepIndex m - 1,
                    manager_state := Stepping \<rparr>
          else m)"

text \<open>
  Modelled from the spec: cancellation drops the clone; commit applies the clone to the
  real actor in one batch update and, when that update fails, leaves the real actor as it
  was.
\<close>

definition manager_cancel :: "'a manager \<Rightarrow> 'a manager" where
  "manager_cancel m = m \<lparr> manager_clone := None, manager_state := Cancelled \<rparr>"

text \<open>
  Modelled from the spec: commit, only from \<open>Committing\<close>; a failed batch update changes
  nothing.
\<close>

definition manager_commit :: "'a manager_host \<Rightarrow> 'a manager \<Rightarrow> 'a manager" where
  "manager_commit host m =
     (case manager_clone m of
        None \<Rightarrow> m
      | Some c \<Rightarrow>
          if manager_state m = Committing \<and> persist host (manager_actor m) c
          then m \<lparr> manager_actor := c, manager_clone := None, manager_state := Idle \<rparr>
          else m)"

text \<open>Modelled from the spec: what the user and the wizard can do to a manager.\<close>

datatype manager_event = Advance | Retreat | Cancel | Commit

text \<open>Modelled from the spec: one event, handled by the operation it names.\<close>

fun manager_step :: "'a manager_host \<Rightarrow> 'a manager \<Rightarrow> manager_event \<Rightarrow> 'a manager" where
  "manager_step host m Advance = manager_advance host m"
| "manager_step host m Retreat = manager_retreat host m"
| "manager_step host m Cancel = manager_cancel m"
| "manager_step host m Commit = manager_commit host m"

text \<open>Modelled from the spec: the events of a session, strictly one after the other.\<close>

definition manager_run :: "'a manager_host \<Rightarrow> 'a manager \<Rightarrow> manager_event list \<Rightarrow> 'a manager" where
  "manager_run host m events = foldl (manager_step host) m events"

section \<open>Concrete inputs\<close>

text \<open>
  An ItemChoice advancement offering powers at levels 3, 10 and 1 (configured in that
  order), with a choice already applied at level 3.
\<close>

definition example_advancement :: item_choice_advancement where
  "example_advancement =
     \<lparr> configuration =
         \<lparr> choices = [(''3'', 1), (''10'', 2), (''1'', 1)],
           configuration_type = Some ''power'',
           configuration_restriction =
             \<lparr> restriction_type = None, restriction_subtype = None,
               restriction_level = Some ''1'' \<rparr> \<rparr>,
       advancement_value =
         \<lparr> added = Some [(''3'', [(''0'', ''Compendium.sw5e.forcepowers.Item.abc'')])] \<rparr> \<rparr>"

text \<open>
  A host whose localisation returns its key unchanged (what it does for a key without a
  translation) and whose \<open>format\<close> appends the values of the data object to the key.
\<close>

definition example_host :: host where
  "example_host =
     \<lparr> localize = (\<lambda>k. k),
       format = (\<lambda>k d. k @ concat (map (\<lambda>(n, v). '' '' @ n @ ''='' @ property_key v) d)),
       typeLabels = [(''feat'', ''ITEM.TypeFeat''), (''power'', ''ITEM.TypePower''),
                     (''weapon'', ''ITEM.TypeWeapon'')],
       featureTypes =
         [(''class'', \<lparr> label = Some ''SW5E.ClassFeature'',
                        subtypes = Some [(''berserkerInstinct'', ''SW5E.BerserkerInstinct'')] \<rparr>),
          (''species'', \<lparr> label = Some ''SW5E.SpeciesFeature'', subtypes = None \<rparr>)],
       powerLevels = [(''0'', ''SW5E.PowerLevel0''), (''1'', ''SW5E.PowerLevel1''),
                      (''2'', ''SW5E.PowerLevel2'')] \<rparr>"

text \<open>An inherited check that accepts every item.\<close>

definition accepting_validateItemType :: "item \<Rightarrow> bool \<Rightarrow> js_error + bool" where
  "accepting_validateItemType itm strict = Inr True"

definition power_item :: "int \<Rightarrow> item" where
  "power_item lvl =
     \<lparr> item_type = ''power'', system = \<lparr> system_type = None, system_level = Some lvl \<rparr> \<rparr>"

definition feat_item :: item where
  "feat_item =
     \<lparr> item_type = ''feat'',
       system = \<lparr> system_type = Some \<lparr> type_value = Some ''class'', type_subtype = Some '''' \<rparr>,
                  system_level = None \<rparr> \<rparr>"

text \<open>The configuration of the advancement itself, strict by default.\<close>

definition default_config :: validate_config where
  "default_config = \<lparr> config_type = None, config_restriction = None, config_strict = None \<rparr>"

text \<open>Powers of any level the character can cast: the level restriction is not a number.\<close>

definition available_power_config :: validate_config where
  "available_power_config =
     \<lparr> config_type = Some ''power'',
       config_restriction = Some \<lparr> restriction_type = None, restriction_subtype = None,
                                  restriction_level = Some ''available'' \<rparr>,
       config_strict = Some False \<rparr>"

text \<open>A feature restriction naming a feature type the host's table does not have.\<close>

definition unknown_feature_config :: validate_config where
  "unknown_feature_config =
     \<lparr> config_type = Some ''feat'',
       config_restriction = Some \<lparr> restriction_type = Some ''archetype'',
                                  restriction_subtype = None, restriction_level = None \<rparr>,
       config_strict = Some False \<rparr>"

definition weapon_item :: item where
  "weapon_item =
     \<lparr> item_type = ''weapon'', system = \<lparr> system_type = None, system_level = None \<rparr> \<rparr>"

text \<open>
  A flow for the hit points advancement of a class at level 4, re-entered after a reverse
  step that retained the roll taken before.
\<close>

definition example_flow :: "string advancement_flow" where
  "example_flow =
     \<lparr> item_advancement_byId = Some [(''a1'', ''HitPoints''), (''a2'', ''ItemChoice'')],
       advancementId = ''a1'',
       flow_level = 4,
       retainedData = Some [(''4'', ''7'')] \<rparr>"

definition example_form :: form_data where
  "example_form = [(''value'', ''avg'')]"

text \<open>
  A character of level 5 with three levels in one class and two in another, a maximum
  level of 20, advancements enabled, and a manager that has one step for every level
  change.
\<close>

definition example_actor :: actor where
  "example_actor =
     \<lparr> details_level = 5,
       itemTypes_class =
         [\<lparr> class_id = ''c1'', class_identifier = ''guardian'', class_levels = 3,
            class_name = ''Guardian'', class_archetype = None \<rparr>,
          \<lparr> class_id = ''c2'', class_identifier = ''scout'', class_levels = 2,
            class_name = ''Scout'', class_archetype = None \<rparr>],
       itemTypes_archetype = [] \<rparr>"

definition example_env :: sheet_env where
  "example_env =
     \<lparr> disableAdvancements = False,
       maxLevel = 20,
       i18n_format = format example_host,
       forLevelChange =
         (\<lambda>a classId delta.
            [\<lparr> step_kind = (if 0 < delta then Forward else Reverse),
               step_advancement = ''HitPoints'', step_level = 3 \<rparr>]) \<rparr>"

definition level_down_event :: level_change_event where
  "level_down_event = \<lparr> target_value = Some (- 1), closest_item_id = Some ''c1'' \<rparr>"

definition dropped_class :: "int \<Rightarrow> item_data" where
  "dropped_class n =
     \<lparr> data_type = ''class'', data_levels = n, data_identifier = ''guardian'',
       data_classIdentifier = '''' \<rparr>"

text \<open>
  A dice engine that rejects an unbalanced formula, takes a formula with a die in it for
  random, and evaluates the one arithmetic formula \<open>1 + 1\<close>.
\<close>

definition example_roll_host :: "unit roll_host" where
  "example_roll_host =
     \<lparr> string_to_number = (\<lambda>s. if s = ''2'' then Num 2 else NaN),
       new_Roll =
         (\<lambda>b d. case b of
                    Bonus_string s \<Rightarrow>
                      if s = ''(1'' then Inl (JsError ''Unbalanced parentheses'')
                      else Inr \<lparr> formula = s, isDeterministic = (CHR ''d'' \<notin> set s) \<rparr>
                  | _ \<Rightarrow> Inl TypeError),
       safeEval = (\<lambda>f. if f = ''1 + 1'' then Inr (Num 2) else Inl (JsError ''Invalid term'')) \<rparr>"

text \<open>
  A manager over hit point rolls: a forward step appends the roll 5, a reverse step
  removes the last roll, and the batch update succeeds.
\<close>

definition example_manager_host :: "int list manager_host" where
  "example_manager_host =
     \<lparr> run_step = (\<lambda>s rolls. case step_kind s of
                                  Forward \<Rightarrow> Inr (rolls @ [5])
                                | Reverse \<Rightarrow> if rolls = [] then Inl TypeError
                                             else Inr (butlast rolls)),
       undo_step = (\<lambda>s rolls. case step_kind s of
                                   Forward \<Rightarrow> butlast rolls
                                 | Reverse \<Rightarrow> rolls @ [5]),
       persist = (\<lambda>old new. True) \<rparr>"

definition example_steps :: "step list" where
  "example_steps =
     [\<lparr> step_kind = Forward, step_advancement = ''HitPoints'', step_level = 2 \<rparr>,
      \<lparr> step_kind = Forward, step_advancement = ''HitPoints'', step_level = 3 \<rparr>]"

section \<open>Properties of property keys\<close>

lemma set_object_keys: "set (object_keys obj) = fst ` set obj"
  by (auto simp: object_keys_def Let_def)

lemma distinct_object_keys:
  assumes "distinct (map fst obj)"
  shows "distinct (object_keys obj)"
  using assms by (auto simp: object_keys_def Let_def)

lemma object_keys_all_indices:
  assumes "\<forall>k \<in> fst ` set obj. is_array_index k"
  shows "object_keys obj = sort_key index_value (map fst obj)"
proof -
  have "filter is_array_index (map fst obj) = map fst obj"
    using assms by (auto intro: filter_True)
  moreover have "filter (\<lambda>k. \<not> is_array_index k) (map fst obj) = []"
    using assms by (auto simp: filter_empty_conv)
  ultimately show ?thesis by (simp add: object_keys_def Let_def)
qed

text \<open>Keys that are not array indices keep their creation order.\<close>

lemma object_keys_no_indices:
  assumes "\<forall>k \<in> fst ` set obj. \<not> is_array_index k"
  shows "object_keys obj = map fst obj"
proof -
  have "filter is_array_index (map fst obj) = []"
    using assms by (auto simp: filter_empty_conv)
  moreover have "filter (\<lambda>k. \<not> is_array_index k) (map fst obj) = map fst obj"
    using assms by (auto intro: filter_True)
  ultimately show ?thesis by (simp add: object_keys_def Let_def)
qed

lemma digit_char_facts:
  assumes "d < 10"
  shows "is_digit (digit_char d)" and "digit_val (digit_char d) = d"
    and "digit_char d = CHR ''0'' \<longleftrightarrow> d = 0"
proof -
  from assms have "d \<in> {0, 1, 2, 3, 4, 5, 6, 7, 8, 9}" by auto
  then show "is_digit (digit_char d)" and "digit_val (digit_char d) = d"
    and "digit_char d = CHR ''0'' \<longleftrightarrow> d = 0"
    by (auto simp: digit_char_def is_digit_def digit_val_def)
qed

lemma dec_value_snoc: "dec_value (s @ [c]) = 10 * dec_value s + digit_val c"
  by (simp add: dec_value_def)

lemma string_of_nat_not_Nil: "string_of_nat n \<noteq> []"
  by (subst string_of_nat.simps) simp

lemma dec_value_string_of_nat: "dec_value (string_of_nat n) = n"
proof (induction n rule: string_of_nat.induct)
  case (1 n)
  show ?case
  proof (cases "n < 10")
    case True
    then show ?thesis
      by (subst string_of_nat.simps) (simp add: dec_value_def digit_char_facts)
  next
    case False
    with 1 have "dec_value (string_of_nat (n div 10)) = n div 10" by simp
    with False show ?thesis
      by (subst string_of_nat.simps) (simp add: dec_value_snoc digit_char_facts)
  qed
qed

lemma digits_string_of_nat: "list_all is_digit (string_of_nat n)"
proof (induction n rule: string_of_nat.induct)
  case (1 n)
  show ?case
  proof (cases "n < 10")
    case True
    then show ?thesis
      by (subst string_of_nat.simps) (simp add: digit_char_facts)
  next
    case False
    with 1 have "list_all is_digit (string_of_nat (n div 10))" by simp
    with False show ?thesis
      by (subst string_of_nat.simps) (simp add: digit_char_facts)
  qed
qed

lemma hd_string_of_nat: "0 < n \<Longrightarrow> hd (string_of_nat n) \<noteq> CHR ''0''"
proof (induction n rule: string_of_nat.induct)
  case (1 n)
  show ?case
  proof (cases "n < 10")
    case True
    with 1(2) show ?thesis
      by (subst string_of_nat.simps) (simp add: digit_char_facts)
  next
    case False
    then have "0 < n div 10" by simp
    with 1(1) False have "hd (string_of_nat (n div 10)) \<noteq> CHR ''0''" by simp
    with False show ?thesis
      by (subst string_of_nat.simps) (simp add: string_of_nat_not_Nil)
  qed
qed

lemma length_string_of_nat_0: "length (string_of_nat 0) = 1"
  by (subst string_of_nat.simps) simp

text \<open>
  The property key of a level is an array index, and reading its number back gives the
  level.
\<close>

lemma array_index_string_of_nat:
  assumes "n < 4294967295"
  shows "array_index (string_of_nat n) = Some n"
proof -
  have "hd (string_of_nat n) \<noteq> CHR ''0'' \<or> length (string_of_nat n) = 1"
    using hd_string_of_nat [of n] length_string_of_nat_0 by (cases "n = 0") auto
  with assms show ?thesis
    by (simp add: array_index_def string_of_nat_not_Nil digits_string_of_nat
          dec_value_string_of_nat)
qed

lemma level_key_facts:
  assumes "n < 4294967295" and "k = string_of_nat n"
  shows "is_array_index k" and "index_value k = n" and "string_of_nat (index_value k) = k"
  using assms by (simp_all add: is_array_index_def index_value_def array_index_string_of_nat)

section \<open>ItemChoiceAdvancement: levels and configuredForLevel\<close>

lemma example_index_values:
  "index_value ''3'' = 3" "index_value ''10'' = 10" "index_value ''1'' = 1"
  by (simp_all add: index_value_def array_index_def is_digit_def dec_value_def digit_val_def)

lemma example_levels: "levels example_advancement = [''1'', ''3'', ''10'']"
  by (simp add: example_advancement_def levels_def object_keys_def is_array_index_def
        array_index_def is_digit_def dec_value_def digit_val_def example_index_values)

text \<open>
  C7. The \<open>levels\<close> of an ItemChoice advancement whose \<open>configuration.choices\<close> is keyed
  by levels (the property keys of natural numbers, each key once) are exactly those keys,
  without duplicates, and strictly ascending as numbers, whatever the order in which the
  levels were configured. Each element is the key of the level it stands for.
\<close>

theorem levels_unique_ascending:
  assumes "distinct (map fst (choices (configuration adv)))"
      and "\<forall>k \<in> fst ` set (choices (configuration adv)).
             \<exists>n < 4294967295. k = string_of_nat n"
  shows "set (levels adv) = fst ` set (choices (configuration adv))
         \<and> distinct (levels adv)
         \<and> sorted_wrt (<) (map index_value (levels adv))
         \<and> (\<forall>k \<in> set (levels adv). string_of_nat (index_value k) = k)"
proof -
  let ?keys = "fst ` set (choices (configuration adv))"
  have idx: "\<forall>k \<in> ?keys. is_array_index k"
    using assms(2) level_key_facts(1) by blast
  have roundtrip: "\<forall>k \<in> ?keys. string_of_nat (index_value k) = k"
    using assms(2) level_key_facts(3) by blast
  have s: "set (levels adv) = ?keys"
    by (simp add: levels_def set_object_keys)
  have d: "distinct (levels adv)"
    unfolding levels_def using assms(1) by (rule distinct_object_keys)
  have "levels adv = sort_key index_value (map fst (choices (configuration adv)))"
    unfolding levels_def using idx by (rule object_keys_all_indices)
  then have sorted: "sorted (map index_value (levels adv))"
    by (simp only: sorted_sort_key)
  have "inj_on index_value (set (levels adv))"
  proof (rule inj_onI)
    fix k k' assume "k \<in> set (levels adv)" "k' \<in> set (levels adv)"
      and e: "index_value k = index_value k'"
    with s roundtrip have "string_of_nat (index_value k) = k"
      and "string_of_nat (index_value k') = k'" by auto
    with e show "k = k'" by metis
  qed
  with d have "distinct (map index_value (levels adv))"
    by (simp add: distinct_map)
  with sorted have "sorted_wrt (<) (map index_value (levels adv))"
    by (simp add: strict_sorted_iff)
  with s d roundtrip show ?thesis by simp
qed

theorem levels_unique_ascending_witness:
  "distinct (map fst (choices (configuration example_advancement)))
   \<and> map fst (choices (configuration example_advancement))
       = [string_of_nat 3, string_of_nat 10, string_of_nat 1]
   \<and> levels example_advancement = [''1'', ''3'', ''10'']
   \<and> set (levels example_advancement) = fst ` set (choices (configuration example_advancement))
   \<and> distinct (levels example_advancement)
   \<and> sorted_wrt (<) (map index_value (levels example_advancement))"
proof -
  have d: "distinct (map fst (choices (configuration example_advancement)))"
    by (simp add: example_advancement_def)
  have k: "map fst (choices (configuration example_advancement))
           = [string_of_nat 3, string_of_nat 10, string_of_nat 1]"
    by (simp add: example_advancement_def string_of_nat.simps digit_char_def)
  have "\<exists>n < 4294967295. string_of_nat 3 = string_of_nat n"
       "\<exists>n < 4294967295. string_of_nat 10 = string_of_nat n"
       "\<exists>n < 4294967295. string_of_nat 1 = string_of_nat n"
    by (rule exI [of _ 3], simp, rule exI [of _ 10], simp, rule exI [of _ 1], simp)
  then have "\<forall>k \<in> set (map fst (choices (configuration example_advancement))).
          \<exists>n < 4294967295. k = string_of_nat n"
    unfolding k by simp
  then have i: "\<forall>k \<in> fst ` set (choices (configuration example_advancement)).
                 \<exists>n < 4294967295. k = string_of_nat n"
    by simp
  from levels_unique_ascending [OF d i] d k example_levels show ?thesis
    by simp
qed

text \<open>
  C6. \<open>configuredForLevel(level)\<close> is true exactly when \<open>value.added\<close> exists and holds
  an entry under the key of that level.
\<close>

theorem configuredForLevel_iff:
  "configuredForLevel adv level \<longleftrightarrow>
     (\<exists>a entry. added (advancement_value adv) = Some a
        \<and> (string_of_nat level, entry) \<in> set a)"
  by (force simp: configuredForLevel_def js_get_def map_of_eq_None_iff split: option.splits)

theorem configuredForLevel_iff_witness:
  "configuredForLevel example_advancement 3
   \<and> (\<exists>a entry. added (advancement_value example_advancement) = Some a
          \<and> (string_of_nat 3, entry) \<in> set a)"
proof -
  have "configuredForLevel example_advancement 3"
    by (simp add: configuredForLevel_def example_advancement_def js_get_def
          string_of_nat.simps digit_char_def)
  with configuredForLevel_iff [of example_advancement 3] show ?thesis
    by (simp only: simp_thms)
qed

lemma configuredForLevel_example_unapplied:
  "\<not> configuredForLevel example_advancement 10"
  by (simp add: configuredForLevel_def example_advancement_def js_get_def
        string_of_nat.simps digit_char_def)

section \<open>ItemChoiceAdvancement._validateItemType\<close>

lemma parseInt_examples:
  "parseInt (Some ''1'') = Some 1"
  "parseInt (Some ''available'') = None"
  "parseInt (Some ''  -12abc'') = Some (- 12)"
  "parseInt (Some ''0x1f'') = Some 31"
  "parseInt (Some '''') = None"
  "parseInt None = None"
  by (simp_all add: parseInt_def is_white_space_def is_radix_digit_def radix_digit_def
        radix_value_def)

text \<open>
  When the configured type does not match, the label of the error is read from
  \<open>typeLabels\<close> under the key of the restriction object, so it is the same for every
  configured type and every item type.
\<close>

lemma validateItemType_type_mismatch:
  assumes "inherited itm (strict_of cfg) = Inr b"
      and "truthy (type_of adv cfg)" and "type_of adv cfg \<noteq> Some (item_type itm)"
  shows "validateItemType h inherited adv itm cfg =
           (if strict_of cfg
            then Inl (JsError (format h ''SW5E.AdvancementItemChoiceTypeWarning''
                         [(''type'', localize h (js_get (typeLabels h) ''[object Object]''))]))
            else Inr False)"
  using assms by (simp add: validateItemType_def Let_def object_property_key_def)

text \<open>
  A feature restriction whose type is not a key of \<open>featureTypes\<close> makes the validation
  throw a \<open>TypeError\<close>, strict or not.
\<close>

lemma validateItemType_unknown_feature_type:
  assumes "inherited itm (strict_of cfg) = Inr b"
      and "type_of adv cfg = Some ''feat''" and "item_type itm = ''feat''"
      and "truthy (restriction_type (restriction_of adv cfg))"
      and "js_get (featureTypes h) (property_key (restriction_type (restriction_of adv cfg))) = None"
  shows "validateItemType h inherited adv itm cfg = Inl TypeError"
  using assms by (simp add: validateItemType_def Let_def truthy_def)

text \<open>
  Where the feature restriction is well formed (its type is a key of \<open>featureTypes\<close> and
  the item has a \<open>system.type\<close>) and the inherited check does not throw, a validation
  that is not strict returns a boolean.
\<close>

lemma validateItemType_not_strict_returns:
  assumes s: "strict_of cfg = False"
      and i: "returns (inherited itm False)"
      and w: "type_of adv cfg = Some ''feat''
              \<and> truthy (restriction_type (restriction_of adv cfg))
              \<and> type_of adv cfg = Some (item_type itm)
           \<longrightarrow> js_get (featureTypes h)
                   (property_key (restriction_type (restriction_of adv cfg))) \<noteq> None
               \<and> system_type (system itm) \<noteq> None"
  shows "returns (validateItemType h inherited adv itm cfg)"
proof -
  from i obtain b where b: "inherited itm False = Inr b"
    by (auto simp: returns_def split: sum.splits)
  show ?thesis
  proof (cases "truthy (type_of adv cfg) \<and> type_of adv cfg \<noteq> Some (item_type itm)")
    case True
    with s b show ?thesis
      by (simp add: validateItemType_def Let_def returns_def)
  next
    case False
    show ?thesis
    proof (cases "type_of adv cfg = Some ''feat''
                  \<and> truthy (restriction_type (restriction_of adv cfg))")
      case feat: True
      with False have "type_of adv cfg = Some (item_type itm)"
        by (auto simp: truthy_def)
      with feat w obtain typeConfig ist
        where "js_get (featureTypes h)
                 (property_key (restriction_type (restriction_of adv cfg))) = Some typeConfig"
          and "system_type (system itm) = Some ist"
        by auto
      with s b False feat show ?thesis
        by (simp add: validateItemType_def Let_def returns_def)
    next
      case nofeat: False
      with s b False show ?thesis
        by (auto simp: validateItemType_def Let_def returns_def)
    qed
  qed
qed

text \<open>
  A strict validation never returns \<open>false\<close>, and a validation that is not strict never
  throws an error message of its own.
\<close>

lemma validateItemType_strict_never_false:
  assumes "strict_of cfg"
  shows "validateItemType h inherited adv itm cfg \<noteq> Inr False"
  using assms
  by (simp add: validateItemType_def Let_def split: sum.splits option.splits)

lemma validateItemType_not_strict_no_message:
  assumes "\<not> strict_of cfg" and "returns (inherited itm False)"
  shows "validateItemType h inherited adv itm cfg \<noteq> Inl (JsError msg)"
  using assms
  by (simp add: validateItemType_def Let_def returns_def split: sum.splits option.splits)

text \<open>
  C3. Two inputs at which \<open>_validateItemType\<close> departs from its contract. An advancement
  configured for powers, given a feature item in strict mode, throws an error whose label
  is \<open>undefined\<close>: the label is looked up under the restriction object instead of the
  type, so the error does not name the mismatched type. A feature restriction naming a
  feature type that \<open>CONFIG.SW5E.featureTypes\<close> lacks throws a \<open>TypeError\<close> although
  \<open>strict\<close> is false.
\<close>

theorem validateItemType_contract_broken:
  "strict_of default_config = True
   \<and> validateItemType example_host accepting_validateItemType example_advancement feat_item
       default_config
     = Inl (JsError (format example_host ''SW5E.AdvancementItemChoiceTypeWarning''
              [(''type'', None)]))
   \<and> strict_of unknown_feature_config = False
   \<and> validateItemType example_host accepting_validateItemType example_advancement feat_item
       unknown_feature_config = Inl TypeError"
proof -
  have a: "accepting_validateItemType feat_item (strict_of unknown_feature_config) = Inr True"
          "accepting_validateItemType feat_item (strict_of default_config) = Inr True"
    by (simp_all add: accepting_validateItemType_def)
  have "validateItemType example_host accepting_validateItemType example_advancement feat_item
          unknown_feature_config = Inl TypeError"
    using a(1)
    by (rule validateItemType_unknown_feature_type
          [where inherited = accepting_validateItemType and b = True])
       (simp_all add: type_of_def restriction_of_def unknown_feature_config_def feat_item_def
          truthy_def property_key_def js_get_def example_host_def)
  moreover have "validateItemType example_host accepting_validateItemType example_advancement
          feat_item default_config
        = Inl (JsError (format example_host ''SW5E.AdvancementItemChoiceTypeWarning''
                 [(''type'', None)]))"
  proof -
    have t: "type_of example_advancement default_config = Some ''power''"
      by (simp add: type_of_def default_config_def example_advancement_def)
    have "localize example_host (js_get (typeLabels example_host) ''[object Object]'') = None"
      by (simp add: example_host_def js_get_def)
    moreover have "strict_of default_config"
      by (simp add: strict_of_def default_config_def)
    ultimately show ?thesis
      using validateItemType_type_mismatch
              [where inherited = accepting_validateItemType and b = True
                 and itm = feat_item and cfg = default_config
                 and adv = example_advancement and h = example_host] a(2) t
      by (simp add: truthy_def feat_item_def)
  qed
  moreover have "strict_of unknown_feature_config = False" "strict_of default_config = True"
    by (simp_all add: strict_of_def unknown_feature_config_def default_config_def)
  ultimately show ?thesis by simp
qed

text \<open>
  C4. With the configured type \<open>power\<close>: when \<open>restriction.level\<close> parses as the integer
  \<open>l\<close>, the validation returns true only for an item whose level is \<open>l\<close>, and it does
  return true for a power of that level; when \<open>restriction.level\<close> does not parse, every
  power passes, whatever its level. (The inherited check is assumed to return where a
  result is claimed.)
\<close>

theorem power_level_restriction:
  assumes "type_of adv cfg = Some ''power''"
  shows "(\<forall>l. parseInt (restriction_level (restriction_of adv cfg)) = Some l \<longrightarrow>
            validateItemType h inherited adv itm cfg = Inr True \<longrightarrow>
            system_level (system itm) = Some l)
       \<and> (\<forall>l. parseInt (restriction_level (restriction_of adv cfg)) = Some l \<longrightarrow>
            item_type itm = ''power'' \<longrightarrow> returns (inherited itm (strict_of cfg)) \<longrightarrow>
            system_level (system itm) = Some l \<longrightarrow>
            validateItemType h inherited adv itm cfg = Inr True)
       \<and> (parseInt (restriction_level (restriction_of adv cfg)) = None \<longrightarrow>
            item_type itm = ''power'' \<longrightarrow> returns (inherited itm (strict_of cfg)) \<longrightarrow>
            validateItemType h inherited adv itm cfg = Inr True)"
  using assms
  by (auto simp: validateItemType_def Let_def truthy_def returns_def split: sum.splits if_splits)

theorem power_level_restriction_witness:
  "type_of example_advancement default_config = Some ''power''
   \<and> parseInt (restriction_level (restriction_of example_advancement default_config)) = Some 1
   \<and> validateItemType example_host accepting_validateItemType example_advancement
       (power_item 1) default_config = Inr True
   \<and> system_level (system (power_item 1)) = Some 1
   \<and> validateItemType example_host accepting_validateItemType example_advancement
       (power_item 2) default_config \<noteq> Inr True
   \<and> type_of example_advancement available_power_config = Some ''power''
   \<and> parseInt (restriction_level (restriction_of example_advancement available_power_config))
       = None
   \<and> validateItemType example_host accepting_validateItemType example_advancement
       (power_item 7) available_power_config = Inr True"
proof -
  have t: "type_of example_advancement default_config = Some ''power''"
    by (simp add: type_of_def default_config_def example_advancement_def)
  have p: "parseInt (restriction_level (restriction_of example_advancement default_config))
           = Some 1"
    by (simp add: restriction_of_def default_config_def example_advancement_def
          parseInt_examples)
  have i: "item_type (power_item 1) = ''power''" "item_type (power_item 7) = ''power''"
    by (simp_all add: power_item_def)
  have s: "returns (accepting_validateItemType (power_item 1) (strict_of default_config))"
          "returns (accepting_validateItemType (power_item 7)
                      (strict_of available_power_config))"
    by (simp_all add: accepting_validateItemType_def returns_def)
  have l: "system_level (system (power_item 1)) = Some 1"
          "system_level (system (power_item 2)) \<noteq> Some 1"
    by (simp_all add: power_item_def)
  have t': "type_of example_advancement available_power_config = Some ''power''"
    by (simp add: type_of_def available_power_config_def)
  have p': "parseInt (restriction_level
                        (restriction_of example_advancement available_power_config)) = None"
    by (simp add: restriction_of_def available_power_config_def parseInt_examples)
  from power_level_restriction [OF t, of example_host accepting_validateItemType "power_item 1"]
       p i s l
  have one: "validateItemType example_host accepting_validateItemType example_advancement
               (power_item 1) default_config = Inr True"
    by simp
  from power_level_restriction [OF t, of example_host accepting_validateItemType "power_item 2"]
       p l
  have two: "validateItemType example_host accepting_validateItemType example_advancement
               (power_item 2) default_config \<noteq> Inr True"
    by simp
  from power_level_restriction [OF t', of example_host accepting_validateItemType
                                  "power_item 7"] p' i s
  have seven: "validateItemType example_host accepting_validateItemType example_advancement
                 (power_item 7) available_power_config = Inr True"
    by simp
  from t p one l(1) two t' p' seven show ?thesis by (simp only: simp_thms)
qed

section \<open>ItemGrantConfig._validateDroppedItem\<close>

text \<open>
  C8. A dropped item whose type is one of \<open>VALID_TYPES\<close> is accepted with \<open>true\<close>; any
  other item makes \<open>_validateDroppedItem\<close> throw an error whose message is formatted
  from the localised label of the item's own type. It never returns \<open>false\<close>.
\<close>

theorem validateDroppedItem_result:
  "(item_type itm \<in> V \<longrightarrow> validateDroppedItem h V itm = Inr True)
   \<and> (item_type itm \<notin> V \<longrightarrow>
        validateDroppedItem h V itm =
          Inl (JsError (format h ''SW5E.AdvancementItemTypeInvalidWarning''
                 [(''type'', localize h (Some (''ITEM.Type'' @ capitalize (item_type itm))))])))
   \<and> validateDroppedItem h V itm \<noteq> Inr False"
  by (simp add: validateDroppedItem_def Let_def)

theorem validateDroppedItem_result_witness:
  "item_type feat_item \<in> {''feat'', ''power''}
   \<and> validateDroppedItem example_host {''feat'', ''power''} feat_item = Inr True
   \<and> item_type weapon_item \<notin> {''feat'', ''power''}
   \<and> validateDroppedItem example_host {''feat'', ''power''} weapon_item
       = Inl (JsError ''SW5E.AdvancementItemTypeInvalidWarning type=ITEM.TypeWeapon'')"
proof -
  have f: "item_type feat_item \<in> {''feat'', ''power''}"
    by (simp add: feat_item_def)
  have w: "item_type weapon_item \<notin> {''feat'', ''power''}"
    by (simp add: weapon_item_def)
  have c: "capitalize (item_type weapon_item) = ''Weapon''"
    by (simp add: capitalize_def toUpperCase_char_def weapon_item_def)
  have m: "format example_host ''SW5E.AdvancementItemTypeInvalidWarning''
             [(''type'', localize example_host (Some (''ITEM.Type'' @ ''Weapon'')))]
           = ''SW5E.AdvancementItemTypeInvalidWarning type=ITEM.TypeWeapon''"
    by (simp add: example_host_def property_key_def)
  from conjunct1 [OF validateDroppedItem_result
                      [of feat_item "{''feat'', ''power''}" example_host]] f
  have one: "validateDroppedItem example_host {''feat'', ''power''} feat_item = Inr True"
    by (rule mp)
  from conjunct1 [OF conjunct2 [OF validateDroppedItem_result
                      [of weapon_item "{''feat'', ''power''}" example_host]]] w
  have two: "validateDroppedItem example_host {''feat'', ''power''} weapon_item
             = Inl (JsError (format example_host ''SW5E.AdvancementItemTypeInvalidWarning''
                 [(''type'', localize example_host
                     (Some (''ITEM.Type'' @ capitalize (item_type weapon_item))))]))"
    by (rule mp)
  from f one w two c m show ?thesis by simp
qed

section \<open>AdvancementFlow._updateObject\<close>

text \<open>
  C5, as the claim states it, fails: a flow that holds retained data still calls \<open>apply\<close>
  with the form payload, and makes no call of \<open>restore\<close>.
\<close>

theorem updateObject_restore_counterexample:
  "retainedData example_flow = Some [(''4'', ''7'')]
   \<and> updateObject example_flow example_form = Inr [Call_apply ''HitPoints'' 4 example_form]
   \<and> updateObject example_flow example_form \<noteq> Inr [Call_restore ''HitPoints'' 4 [(''4'', ''7'')]]"
  by (simp add: updateObject_def advancement_def example_flow_def js_get_def)

text \<open>
  C5, amended. Whatever its retained data, a flow whose advancement exists makes exactly
  one call on submission: \<open>apply\<close> on its advancement, at its level, with the form payload
  unchanged. It calls nothing else, so it touches the actor only through \<open>apply\<close>.
\<close>

theorem updateObject_always_applies:
  assumes "advancement flow = Some a"
  shows "updateObject (flow \<lparr> retainedData := r \<rparr>) formData
           = Inr [Call_apply a (flow_level flow) formData]"
  using assms by (auto simp: updateObject_def advancement_def split: option.splits)

theorem updateObject_always_applies_witness:
  "advancement example_flow = Some ''HitPoints''
   \<and> updateObject (example_flow \<lparr> retainedData := None \<rparr>) example_form
       = Inr [Call_apply ''HitPoints'' 4 example_form]
   \<and> updateObject (example_flow \<lparr> retainedData := Some [(''4'', ''7'')] \<rparr>) example_form
       = Inr [Call_apply ''HitPoints'' 4 example_form]"
proof -
  have a: "advancement example_flow = Some ''HitPoints''"
    by (simp add: advancement_def example_flow_def js_get_def)
  have l: "flow_level example_flow = 4"
    by (simp add: example_flow_def)
  from updateObject_always_applies [OF a, of None example_form]
       updateObject_always_applies [OF a, of "Some [(''4'', ''7'')]" example_form] a l
  show ?thesis by simp
qed

section \<open>ActorSheet5eCharacter._onLevelChange\<close>

lemma level_down_event_facts:
  "target_value level_down_event = Some (- 1)"
  "truthy (closest_item_id level_down_event)"
  "property_key (closest_item_id level_down_event) = ''c1''"
  "\<not> disableAdvancements example_env"
  "forLevelChange example_env example_actor ''c1'' (- 1) \<noteq> []"
  "items_get example_actor ''c1''
     = Some \<lparr> class_id = ''c1'', class_identifier = ''guardian'', class_levels = 3,
              class_name = ''Guardian'', class_archetype = None \<rparr>"
  by (simp_all add: level_down_event_def truthy_def property_key_def example_env_def
        items_get_def example_actor_def)

text \<open>
  A user who goes on with the level decrease but keeps the advancements (the dialog
  resolves to \<open>false\<close> for \<open>shouldRemoveAdvancements\<close>) gets the class levels lowered
  directly, without the manager.
\<close>

lemma level_down_keep_advancements:
  "target_value level_down_event = Some (- 1)
   \<and> forLevelChange example_env example_actor ''c1'' (- 1) \<noteq> []
   \<and> onLevelChange example_env example_actor (Resolved False) level_down_event
       = ([Confirm_level_down ''c1'', Update_levels ''c1'' 2], Returns_updated_item)"
  by (simp add: onLevelChange_def level_down_event_facts update_levels_def Let_def)

text \<open>
  C1. On a level decrease whose manager has at least one step, the confirmation prompt is
  the first thing that happens, whatever the user answers, so it comes before the manager
  is rendered and before any reverse step runs. If the user declines the confirmation
  (the dialog's promise rejects), nothing else happens: the only effect is the prompt, so
  no class-level update is applied, the manager is not rendered and no reverse step is
  executed. The two answers of a user who goes on are stated as well: with \<open>true\<close> the
  manager is rendered, with \<open>false\<close> the class levels are updated without the manager.
\<close>

theorem level_down_confirmation:
  assumes "target_value event = Some delta" and "delta < 0"
      and "truthy (closest_item_id event)"
      and "\<not> disableAdvancements env"
      and "forLevelChange env a (property_key (closest_item_id event)) delta \<noteq> []"
  shows "onLevelChange env a Rejected event
           = ([Confirm_level_down (property_key (closest_item_id event))], Returns_undefined)
       \<and> onLevelChange env a (Resolved True) event
           = ([Confirm_level_down (property_key (closest_item_id event)),
               Render_manager (property_key (closest_item_id event)) delta
                 (forLevelChange env a (property_key (closest_item_id event)) delta)],
              Returns_manager)
       \<and> onLevelChange env a (Resolved False) event
           = update_levels [Confirm_level_down (property_key (closest_item_id event))]
               (property_key (closest_item_id event))
               (items_get a (property_key (closest_item_id event))) delta
       \<and> (\<forall>answer. \<exists>rest. fst (onLevelChange env a answer event)
              = Confirm_level_down (property_key (closest_item_id event)) # rest)"
proof -
  have r: "onLevelChange env a Rejected event
           = ([Confirm_level_down (property_key (closest_item_id event))], Returns_undefined)"
    using assms by (simp add: onLevelChange_def Let_def)
  have t: "onLevelChange env a (Resolved True) event
           = ([Confirm_level_down (property_key (closest_item_id event)),
               Render_manager (property_key (closest_item_id event)) delta
                 (forLevelChange env a (property_key (closest_item_id event)) delta)],
              Returns_manager)"
    using assms by (simp add: onLevelChange_def Let_def)
  have f: "onLevelChange env a (Resolved False) event
           = update_levels [Confirm_level_down (property_key (closest_item_id event))]
               (property_key (closest_item_id event))
               (items_get a (property_key (closest_item_id event))) delta"
    using assms by (simp add: onLevelChange_def Let_def)
  have "\<exists>rest. fst (onLevelChange env a answer event)
              = Confirm_level_down (property_key (closest_item_id event)) # rest" for answer
  proof (cases answer)
    case (Resolved b)
    then show ?thesis
      using t f by (cases b) (auto simp: update_levels_def split: option.splits)
  next
    case Rejected
    then show ?thesis using r by simp
  qed
  with r t f show ?thesis by blast
qed

theorem level_down_confirmation_witness:
  "onLevelChange example_env example_actor Rejected level_down_event
     = ([Confirm_level_down ''c1''], Returns_undefined)
   \<and> onLevelChange example_env example_actor (Resolved True) level_down_event
     = ([Confirm_level_down ''c1'',
         Render_manager ''c1'' (- 1)
           [\<lparr> step_kind = Reverse, step_advancement = ''HitPoints'', step_level = 3 \<rparr>]],
        Returns_manager)
   \<and> onLevelChange example_env example_actor (Resolved False) level_down_event
     = ([Confirm_level_down ''c1'', Update_levels ''c1'' 2], Returns_updated_item)"
proof -
  have n: "(- 1 :: int) < 0" by simp
  have s: "forLevelChange example_env example_actor
             (property_key (closest_item_id level_down_event)) (- 1) \<noteq> []"
    by (simp add: level_down_event_facts)
  have m: "forLevelChange example_env example_actor ''c1'' (- 1)
           = [\<lparr> step_kind = Reverse, step_advancement = ''HitPoints'', step_level = 3 \<rparr>]"
    by (simp add: example_env_def)
  from level_down_confirmation
         [OF level_down_event_facts(1) n level_down_event_facts(2) level_down_event_facts(4) s]
  show ?thesis
    by (simp add: level_down_event_facts(3,6) m update_levels_def)
qed

section \<open>ActorSheet5eCharacter._onDropSingleItem\<close>

text \<open>
  C9. A dropped class grants \<open>min(levels, maxLevel - level)\<close> levels, and the character's
  level plus that number is at most \<open>maxLevel\<close>. When the number is zero or less the
  drop is rejected after an error notification: nothing is created and no class is
  updated. Otherwise exactly that number of levels is handed to the manager, added to
  the existing class, or given to the created item.
\<close>

theorem class_drop_clamped:
  assumes "data_type itemData = ''class''"
      and "granted = min (data_levels itemData) (maxLevel env - details_level a)"
  shows "details_level a + granted \<le> maxLevel env
       \<and> (granted \<le> 0 \<longrightarrow>
            onDropSingleItem env a itemData
              = ([Notify_error (i18n_format env ''SW5E.MaxCharacterLevelExceededWarn''
                                  [(''max'', Some (string_of_int (maxLevel env)))])],
                 Returns_false))
       \<and> (0 < granted \<longrightarrow>
            (case find (\<lambda>c. class_identifier c = data_identifier itemData)
                       (itemTypes_class a) of
               None \<Rightarrow>
                 onDropSingleItem env a itemData
                   = ([], Returns_super (itemData \<lparr> data_levels := granted \<rparr>))
             | Some cls \<Rightarrow>
                 onDropSingleItem env a itemData
                   = ([Render_manager (class_id cls) granted
                         (forLevelChange env a (class_id cls) granted)], Returns_false)
                 \<or> onDropSingleItem env a itemData
                   = ([Update_levels (class_id cls) (class_levels cls + granted)],
                      Returns_false)))"
proof -
  have "details_level a + granted \<le> maxLevel env"
    using assms(2) by simp
  moreover have "granted \<le> 0 \<longrightarrow>
            onDropSingleItem env a itemData
              = ([Notify_error (i18n_format env ''SW5E.MaxCharacterLevelExceededWarn''
                                  [(''max'', Some (string_of_int (maxLevel env)))])],
                 Returns_false)"
    using assms(1) by (simp add: onDropSingleItem_def Let_def assms(2) [symmetric])
  moreover have "0 < granted \<longrightarrow>
            (case find (\<lambda>c. class_identifier c = data_identifier itemData)
                       (itemTypes_class a) of
               None \<Rightarrow>
                 onDropSingleItem env a itemData
                   = ([], Returns_super (itemData \<lparr> data_levels := granted \<rparr>))
             | Some cls \<Rightarrow>
                 onDropSingleItem env a itemData
                   = ([Render_manager (class_id cls) granted
                         (forLevelChange env a (class_id cls) granted)], Returns_false)
                 \<or> onDropSingleItem env a itemData
                   = ([Update_levels (class_id cls) (class_levels cls + granted)],
                      Returns_false))"
    using assms(1)
    by (simp add: onDropSingleItem_def Let_def assms(2) [symmetric] split: option.splits)
  ultimately show ?thesis by blast
qed


theorem class_drop_clamped_witness:
  "data_type (dropped_class 17) = ''class''
   \<and> (15 :: int) = min (data_levels (dropped_class 17))
                       (maxLevel example_env - details_level example_actor)
   \<and> details_level example_actor + 15 \<le> maxLevel example_env
   \<and> onDropSingleItem example_env example_actor (dropped_class 17)
       = ([Render_manager ''c1'' 15
             [\<lparr> step_kind = Forward, step_advancement = ''HitPoints'', step_level = 3 \<rparr>]],
          Returns_false)
   \<and> onDropSingleItem (example_env \<lparr> maxLevel := 5 \<rparr>) example_actor (dropped_class 2)
       = ([Notify_error ''SW5E.MaxCharacterLevelExceededWarn max=5''], Returns_false)"
proof -
  have t: "data_type (dropped_class n) = ''class''" for n
    by (simp add: dropped_class_def)
  have g: "(15 :: int) = min (data_levels (dropped_class 17))
                           (maxLevel example_env - details_level example_actor)"
    by (simp add: dropped_class_def example_env_def example_actor_def)
  have g0: "(0 :: int) = min (data_levels (dropped_class 2))
                           (maxLevel (example_env \<lparr> maxLevel := 5 \<rparr>)
                              - details_level example_actor)"
    by (simp add: dropped_class_def example_env_def example_actor_def)
  have f: "find (\<lambda>c. class_identifier c = data_identifier (dropped_class 17))
             (itemTypes_class example_actor)
           = Some \<lparr> class_id = ''c1'', class_identifier = ''guardian'', class_levels = 3,
                    class_name = ''Guardian'', class_archetype = None \<rparr>"
    by (simp add: dropped_class_def example_actor_def)
  have m: "forLevelChange example_env example_actor ''c1'' 15
           = [\<lparr> step_kind = Forward, step_advancement = ''HitPoints'', step_level = 3 \<rparr>]"
    by (simp add: example_env_def)
  have d: "onDropSingleItem example_env example_actor (dropped_class 17)
           \<noteq> ([Update_levels ''c1'' (3 + 15)], Returns_false)"
    by (simp add: onDropSingleItem_def Let_def t g [symmetric] f m example_env_def)
  have s: "string_of_int 5 = ''5''"
    by (simp add: string_of_int_def string_of_nat.simps digit_char_def)
  have n: "i18n_format (example_env \<lparr> maxLevel := 5 \<rparr>) ''SW5E.MaxCharacterLevelExceededWarn''
             [(''max'', Some ''5'')] = ''SW5E.MaxCharacterLevelExceededWarn max=5''"
    by (simp add: example_env_def example_host_def property_key_def)
  from class_drop_clamped [OF t g] f m d
  have one: "details_level example_actor + 15 \<le> maxLevel example_env
             \<and> onDropSingleItem example_env example_actor (dropped_class 17)
                 = ([Render_manager ''c1'' 15
                      [\<lparr> step_kind = Forward, step_advancement = ''HitPoints'',
                           step_level = 3 \<rparr>]], Returns_false)"
    by simp
  from class_drop_clamped [OF t g0] s n
  have two: "onDropSingleItem (example_env \<lparr> maxLevel := 5 \<rparr>) example_actor (dropped_class 2)
             = ([Notify_error ''SW5E.MaxCharacterLevelExceededWarn max=5''], Returns_false)"
    by simp
  from t g one two show ?thesis by simp
qed

section \<open>simplifyBonus\<close>

text \<open>
  C10. \<open>simplifyBonus\<close> always returns a number and never throws: \<open>0\<close> for a falsy bonus,
  \<open>Number(bonus)\<close> for a numeric one, the evaluated value for a deterministic formula,
  and \<open>0\<close> when the formula is not deterministic or when building the roll or
  evaluating it throws.
\<close>

theorem simplifyBonus_total:
  "returns (simplifyBonus host bonus data)
   \<and> (\<not> js_truthy bonus \<longrightarrow> simplifyBonus host bonus data = Inr (Num 0))
   \<and> (js_truthy bonus \<and> isNumeric (string_to_number host) bonus \<longrightarrow>
        simplifyBonus host bonus data = Inr (to_number (string_to_number host) bonus))
   \<and> (js_truthy bonus \<and> \<not> isNumeric (string_to_number host) bonus \<longrightarrow>
        (\<forall>e. new_Roll host bonus data = Inl e \<longrightarrow>
           simplifyBonus host bonus data = Inr (Num 0))
      \<and> (\<forall>r. new_Roll host bonus data = Inr r \<and> \<not> isDeterministic r \<longrightarrow>
           simplifyBonus host bonus data = Inr (Num 0))
      \<and> (\<forall>r v. new_Roll host bonus data = Inr r \<and> isDeterministic r
                 \<and> safeEval host (formula r) = Inr v \<longrightarrow>
           simplifyBonus host bonus data = Inr v)
      \<and> (\<forall>r e. new_Roll host bonus data = Inr r \<and> isDeterministic r
                 \<and> safeEval host (formula r) = Inl e \<longrightarrow>
           simplifyBonus host bonus data = Inr (Num 0)))"
  by (auto simp: simplifyBonus_def returns_def split: sum.splits)

theorem simplifyBonus_total_witness:
  "simplifyBonus example_roll_host Bonus_null () = Inr (Num 0)
   \<and> simplifyBonus example_roll_host (Bonus_string '''') () = Inr (Num 0)
   \<and> simplifyBonus example_roll_host (Bonus_string ''2'') () = Inr (Num 2)
   \<and> simplifyBonus example_roll_host (Bonus_string ''1 + 1'') () = Inr (Num 2)
   \<and> simplifyBonus example_roll_host (Bonus_string ''1d4'') () = Inr (Num 0)
   \<and> simplifyBonus example_roll_host (Bonus_string ''(1'') () = Inr (Num 0)
   \<and> simplifyBonus example_roll_host (Bonus_string ''1 +'') () = Inr (Num 0)"
proof -
  have falsy: "\<not> js_truthy Bonus_null" "\<not> js_truthy (Bonus_string '''')"
    by (simp_all add: js_truthy_def)
  have truthy: "js_truthy (Bonus_string ''2'')" "js_truthy (Bonus_string ''1 + 1'')"
    "js_truthy (Bonus_string ''1d4'')" "js_truthy (Bonus_string ''(1'')"
    "js_truthy (Bonus_string ''1 +'')"
    by (simp_all add: js_truthy_def)
  have numeric: "isNumeric (string_to_number example_roll_host) (Bonus_string ''2'')"
    "to_number (string_to_number example_roll_host) (Bonus_string ''2'') = Num 2"
    by (simp_all add: isNumeric_def to_number_def example_roll_host_def)
  have formulas: "\<not> isNumeric (string_to_number example_roll_host) (Bonus_string ''1 + 1'')"
    "\<not> isNumeric (string_to_number example_roll_host) (Bonus_string ''1d4'')"
    "\<not> isNumeric (string_to_number example_roll_host) (Bonus_string ''(1'')"
    "\<not> isNumeric (string_to_number example_roll_host) (Bonus_string ''1 +'')"
    by (simp_all add: isNumeric_def to_number_def example_roll_host_def)
  have rolls:
    "new_Roll example_roll_host (Bonus_string ''1 + 1'') ()
       = Inr \<lparr> formula = ''1 + 1'', isDeterministic = True \<rparr>"
    "new_Roll example_roll_host (Bonus_string ''1d4'') ()
       = Inr \<lparr> formula = ''1d4'', isDeterministic = False \<rparr>"
    "new_Roll example_roll_host (Bonus_string ''(1'') ()
       = Inl (JsError ''Unbalanced parentheses'')"
    "new_Roll example_roll_host (Bonus_string ''1 +'') ()
       = Inr \<lparr> formula = ''1 +'', isDeterministic = True \<rparr>"
    by (simp_all add: example_roll_host_def)
  have evals: "safeEval example_roll_host ''1 + 1'' = Inr (Num 2)"
    "safeEval example_roll_host ''1 +'' = Inl (JsError ''Invalid term'')"
    by (simp_all add: example_roll_host_def)
  from simplifyBonus_total [of example_roll_host Bonus_null "()"] falsy
  have 1: "simplifyBonus example_roll_host Bonus_null () = Inr (Num 0)" by simp
  from simplifyBonus_total [of example_roll_host "Bonus_string ''''" "()"] falsy
  have 2: "simplifyBonus example_roll_host (Bonus_string '''') () = Inr (Num 0)" by simp
  from simplifyBonus_total [of example_roll_host "Bonus_string ''2''" "()"] truthy numeric
  have 3: "simplifyBonus example_roll_host (Bonus_string ''2'') () = Inr (Num 2)" by simp
  from simplifyBonus_total [of example_roll_host "Bonus_string ''1 + 1''" "()"]
       truthy formulas rolls evals
  have 4: "simplifyBonus example_roll_host (Bonus_string ''1 + 1'') () = Inr (Num 2)" by simp
  from simplifyBonus_total [of example_roll_host "Bonus_string ''1d4''" "()"]
       truthy formulas rolls
  have 5: "simplifyBonus example_roll_host (Bonus_string ''1d4'') () = Inr (Num 0)" by simp
  from simplifyBonus_total [of example_roll_host "Bonus_string ''(1''" "()"]
       truthy formulas rolls
  have 6: "simplifyBonus example_roll_host (Bonus_string ''(1'') () = Inr (Num 0)" by simp
  from simplifyBonus_total [of example_roll_host "Bonus_string ''1 +''" "()"]
       truthy formulas rolls evals
  have 7: "simplifyBonus example_roll_host (Bonus_string ''1 +'') () = Inr (Num 0)" by simp
  from 1 2 3 4 5 6 7 show ?thesis by simp
qed

section \<open>Advancement Manager: cancellation\<close>

lemma manager_step_actor:
  assumes "event \<noteq> Commit"
  shows "manager_actor (manager_step host m event) = manager_actor m"
  using assms
  by (cases event)
     (simp_all add: manager_advance_def manager_retreat_def manager_cancel_def
        split: option.splits sum.splits)

lemma manager_run_actor:
  assumes "Commit \<notin> set events"
  shows "manager_actor (manager_run host m events) = manager_actor m"
  using assms
proof (induction events arbitrary: m)
  case Nil
  show ?case by (simp add: manager_run_def)
next
  case (Cons event events)
  from Cons.prems have "event \<noteq> Commit" and "Commit \<notin> set events" by auto
  with Cons.IH [of "manager_step host m event"] manager_step_actor [of event host m]
  show ?case by (simp add: manager_run_def)
qed

lemma manager_commit_failed:
  assumes "\<not> persist host (manager_actor m) c" and "manager_clone m = Some c"
  shows "manager_commit host m = m"
  using assms by (simp add: manager_commit_def)

text \<open>
  C2. A manager built for an actor and cancelled after any events other than a commit
  leaves the actor's data equal to what it was when the manager was built, and the clone
  is dropped: every step in between has worked on the clone only.
\<close>

theorem cancel_leaves_actor:
  assumes "Commit \<notin> set events"
  shows "manager_actor (manager_cancel (manager_run host (manager_build a steps) events)) = a
       \<and> manager_clone (manager_cancel (manager_run host (manager_build a steps) events))
           = None
       \<and> manager_actor (manager_run host (manager_build a steps) events) = a"
  using manager_run_actor [OF assms, of host "manager_build a steps"]
  by (simp add: manager_cancel_def manager_build_def)

theorem cancel_leaves_actor_witness:
  "manager_clone (manager_run example_manager_host (manager_build [7] example_steps)
                    [Advance, Advance, Retreat]) = Some [7, 5]
   \<and> manager_actor (manager_cancel
        (manager_run example_manager_host (manager_build [7] example_steps)
           [Advance, Advance, Retreat])) = [7]
   \<and> manager_clone (manager_cancel
        (manager_run example_manager_host (manager_build [7] example_steps)
           [Advance, Advance, Retreat])) = None"
proof -
  have e: "Commit \<notin> set [Advance, Advance, Retreat]" by simp
  have c: "manager_clone (manager_run example_manager_host (manager_build [7] example_steps)
                    [Advance, Advance, Retreat]) = Some [7, 5]"
    by (simp add: manager_run_def manager_build_def manager_advance_def manager_retreat_def
          example_manager_host_def example_steps_def)
  from cancel_leaves_actor [OF e, of example_manager_host "[7]" example_steps] c
  show ?thesis by simp
qed

end
